theory Spec2Isabelle
  imports Complex_Main
begin

section \<open>The operating system as seen by nocrux\<close>

text \<open>
  nocrux.py keeps no state of its own: everything it knows it reads from the PID files and
  from the answers of the operating system. The model threads one value, the world,
  through every function. The world holds the files, the answers the operating system is
  going to give (which system call fails with which errno, what the clock reads, which
  process id a new process gets), the account databases, and the few variables of the
  Python process that the code changes (the environment, the user id that \<open>os.getuid()\<close>
  answers, the \<open>_log_newline\<close> flag of every daemon, the text written to a file object
  and not yet flushed), and the time the process has spent in \<open>time.sleep\<close>. Every
  system call is appended to a trace together with its outcome, so that the order of the
  calls can be stated.

  Taken as they are: file text is a list of 8-bit characters (decoding is not modelled),
  clock readings are rationals (the rounding of floats is not modelled), printing and
  reading a line from an open file do not fail.
\<close>

abbreviation EPERM :: int where "EPERM \<equiv> 1"
abbreviation ENOENT :: int where "ENOENT \<equiv> 2"
abbreviation SIGKILL :: int where "SIGKILL \<equiv> 9"
abbreviation SIGTERM :: int where "SIGTERM \<equiv> 15"

text \<open>
  The ways in which a function does not return: the exceptions of Python that the code can
  meet, and \<open>Terminated\<close>, which is no exception: the process itself was ended by a
  signal, so that no handler and no \<open>finally\<close> clause runs any more.
\<close>

datatype exn =
    OSError int
  | KeyError string
  | OverflowError
  | SystemExit int
  | Terminated int

datatype call =
    COpen string string
  | CClose string
  | CKill int int
  | CStat string
  | CMakedirs string
  | CFork
  | CWaitpid int
  | CSetsid
  | CSetuid int
  | CSetgid int
  | CChdir string
  | CDup2 string int
  | CPopen "string list"

datatype outcome = Done | Pid int | Errno int

datatype event =
    Sys call outcome
  | Time rat
  | Sleep rat
  | Print string
  | Write string string

record pwent =
  pw_dir :: string
  pw_uid :: int
  pw_gid :: int

record world =
  files :: "string \<Rightarrow> string option"
  faults :: "nat \<Rightarrow> int option"
  clock :: "nat \<Rightarrow> rat"
  pids :: "nat \<Rightarrow> int"
  passwd :: "string \<Rightarrow> pwent option"
  passwd_uid :: "int \<Rightarrow> pwent option"
  groups :: "string \<Rightarrow> int option"
  ticks :: nat
  trace :: "event list"
  environ :: "string \<Rightarrow> string option"
  uid :: int
  log_newline :: "string \<Rightarrow> bool"
  buffered :: "string \<Rightarrow> string"
  slept :: rat

type_synonym 'a prog = "world \<Rightarrow> (exn + 'a) \<times> world"

definition ret :: "'a \<Rightarrow> 'a prog" where
  "ret x = (\<lambda>w. (Inr x, w))"

definition throw :: "exn \<Rightarrow> 'a prog" where
  "throw e = (\<lambda>w. (Inl e, w))"

definition bnd :: "'a prog \<Rightarrow> ('a \<Rightarrow> 'b prog) \<Rightarrow> 'b prog" where
  "bnd m f = (\<lambda>w. case m w of (Inl e, w') \<Rightarrow> (Inl e, w') | (Inr x, w') \<Rightarrow> f x w')"

text \<open>\<open>try: m except OSError as exc: h exc.errno else: els\<close>\<close>

definition try_except_else :: "'a prog \<Rightarrow> (int \<Rightarrow> 'b prog) \<Rightarrow> ('a \<Rightarrow> 'b prog) \<Rightarrow> 'b prog" where
  "try_except_else m h els =
     (\<lambda>w. case m w of
        (Inl (OSError e), w') \<Rightarrow> h e w'
      | (Inl (KeyError k), w') \<Rightarrow> (Inl (KeyError k), w')
      | (Inl OverflowError, w') \<Rightarrow> (Inl OverflowError, w')
      | (Inl (SystemExit c), w') \<Rightarrow> (Inl (SystemExit c), w')
      | (Inl (Terminated s), w') \<Rightarrow> (Inl (Terminated s), w')
      | (Inr x, w') \<Rightarrow> els x w')"

text \<open>\<open>try: m except OSError as exc: h exc.errno\<close>\<close>

definition except_OSError :: "'a prog \<Rightarrow> (int \<Rightarrow> 'a prog) \<Rightarrow> 'a prog" where
  "except_OSError m h = try_except_else m h ret"

text \<open>\<open>try: m finally: fin\<close>; an exception of \<open>fin\<close> replaces the outcome of \<open>m\<close>.\<close>

definition try_finally :: "'a prog \<Rightarrow> unit prog \<Rightarrow> 'a prog" where
  "try_finally m fin =
     (\<lambda>w. case m w of
        (Inl (Terminated s), w') \<Rightarrow> (Inl (Terminated s), w')
      | (r, w') \<Rightarrow>
          (case fin w' of (Inl e, w'') \<Rightarrow> (Inl e, w'') | (Inr _, w'') \<Rightarrow> (r, w'')))"

text \<open>
  A system call takes the next answer of the operating system: the errno it fails with,
  if it fails. \<open>intrinsic\<close> is the failure that the state of the world itself forces
  (opening a file that is not there).
\<close>

definition syscall :: "call \<Rightarrow> int option \<Rightarrow> world \<Rightarrow> int option \<times> world" where
  "syscall c intrinsic w =
     (let r = (case faults w (ticks w) of Some e \<Rightarrow> Some e | None \<Rightarrow> intrinsic)
      in (r, w\<lparr>ticks := Suc (ticks w),
               trace := trace w @ [Sys c (case r of None \<Rightarrow> Done | Some e \<Rightarrow> Errno e)]\<rparr>))"

definition os_call :: "call \<Rightarrow> unit prog" where
  "os_call c = (\<lambda>w. case syscall c None w of
                      (Some e, w') \<Rightarrow> (Inl (OSError e), w')
                    | (None, w') \<Rightarrow> (Inr (), w'))"

text \<open>\<open>open(path, 'r')\<close> followed by reading the whole text.\<close>

definition os_open_read :: "string \<Rightarrow> string prog" where
  "os_open_read path =
     (\<lambda>w. case files w path of
        None \<Rightarrow> (case syscall (COpen path ''r'') (Some ENOENT) w of
                   (Some e, w') \<Rightarrow> (Inl (OSError e), w')
                 | (None, w') \<Rightarrow> (Inl (OSError ENOENT), w'))
      | Some txt \<Rightarrow> (case syscall (COpen path ''r'') None w of
                   (Some e, w') \<Rightarrow> (Inl (OSError e), w')
                 | (None, w') \<Rightarrow> (Inr txt, w')))"

text \<open>
  \<open>os.kill(pid, sig)\<close>: the process id is converted to a C int first, which raises
  OverflowError (not an OSError) outside the 32-bit range. The id 0 stands for the process
  group of the caller: a signal other than the probe that is delivered to it ends the
  calling process as well (Python installs no handler for SIGTERM).
\<close>

definition os_kill :: "int \<Rightarrow> int \<Rightarrow> unit prog" where
  "os_kill p sig =
     (if p < - 2147483648 \<or> 2147483647 < p then throw OverflowError
      else bnd (os_call (CKill p sig))
             (\<lambda>_. if p = 0 \<and> sig \<noteq> 0 then throw (Terminated sig) else ret ()))"

section \<open>Python's text functions\<close>

text \<open>\<open>fp.readline()\<close> in text mode: the first line, its line end translated to a newline.\<close>

fun readline :: "string \<Rightarrow> string" where
  "readline [] = []"
| "readline (c # cs) =
     (if c = CHR 0x0A \<or> c = CHR 0x0D then [CHR 0x0A] else c # readline cs)"

definition py_isspace :: "char \<Rightarrow> bool" where
  "py_isspace c = ((of_char c :: nat) \<in> {9, 10, 11, 12, 13, 28, 29, 30, 31, 32, 133, 160})"

definition py_strip :: "string \<Rightarrow> string" where
  "py_strip s = rev (dropWhile py_isspace (rev (dropWhile py_isspace s)))"

definition is_digit :: "char \<Rightarrow> bool" where
  "is_digit c = (48 \<le> (of_char c :: nat) \<and> (of_char c :: nat) \<le> 57)"

text \<open>
  The digits of a decimal literal: single underscores are allowed between digits only.
  \<open>prev\<close> says that the character before was a digit.
\<close>

fun parse_digits :: "nat \<Rightarrow> bool \<Rightarrow> string \<Rightarrow> nat option" where
  "parse_digits acc prev [] = (if prev then Some acc else None)"
| "parse_digits acc prev (c # cs) =
     (if is_digit c then parse_digits (10 * acc + (of_char c - 48)) True cs
      else if c = CHR ''_'' \<and> prev then parse_digits acc False cs
      else None)"

text \<open>
  \<open>int(s)\<close> on a string; \<open>None\<close> is ValueError. Blanks around the number are
  dropped, a sign may come first. The bound that newer versions of Python put on the number
  of digits is left out.
\<close>

definition py_int :: "string \<Rightarrow> int option" where
  "py_int s =
     (case py_strip s of
        [] \<Rightarrow> None
      | c # cs \<Rightarrow>
          if c = CHR ''-'' then map_option (\<lambda>n. - int n) (parse_digits 0 False cs)
          else if c = CHR ''+'' then map_option int (parse_digits 0 False cs)
          else map_option int (parse_digits 0 False (c # cs)))"

text \<open>\<open>str(n)\<close> for an integer.\<close>

fun digits_of :: "nat \<Rightarrow> string" where
  "digits_of n =
     (if n < 10 then [''0123456789'' ! n]
      else digits_of (n div 10) @ [''0123456789'' ! (n mod 10)])"

declare digits_of.simps [simp del]

definition str_int :: "int \<Rightarrow> string" where
  "str_int i = (if i < 0 then CHR ''-'' # digits_of (nat (- i)) else digits_of (nat i))"

text \<open>\<open>' '.join(xs)\<close>\<close>

fun join_sp :: "string list \<Rightarrow> string" where
  "join_sp [] = []"
| "join_sp [x] = x"
| "join_sp (x # y # ys) = x @ '' '' @ join_sp (y # ys)"

text \<open>\<open>shlex.quote(s)\<close>\<close>

definition shlex_safe :: "char \<Rightarrow> bool" where
  "shlex_safe c =
     (let n = (of_char c :: nat)
      in (48 \<le> n \<and> n \<le> 57) \<or> (65 \<le> n \<and> n \<le> 90) \<or> (97 \<le> n \<and> n \<le> 122)
         \<or> c \<in> set ''_@%+=:,./-'')"

definition shlex_quote :: "string \<Rightarrow> string" where
  "shlex_quote s =
     (if s = [] then [CHR 0x27, CHR 0x27]
      else if list_all shlex_safe s then s
      else [CHR 0x27]
           @ concat (map (\<lambda>c. if c = CHR 0x27
                               then [CHR 0x27, CHR 0x22, CHR 0x27, CHR 0x22, CHR 0x27]
                               else [c]) s)
           @ [CHR 0x27])"

text \<open>\<open>repr(s)\<close> for a string or None, as \<open>'{!r}'.format(s)\<close> prints it.\<close>

definition hex_digit :: "nat \<Rightarrow> char" where
  "hex_digit n = ''0123456789abcdef'' ! (n mod 16)"

definition repr_char :: "char \<Rightarrow> char \<Rightarrow> string" where
  "repr_char q c =
     (let n = (of_char c :: nat) in
      if c = q \<or> c = CHR 0x5C then [CHR 0x5C, c]
      else if n = 9 then [CHR 0x5C, CHR ''t'']
      else if n = 10 then [CHR 0x5C, CHR ''n'']
      else if n = 13 then [CHR 0x5C, CHR ''r'']
      else if n < 32 \<or> (127 \<le> n \<and> n \<le> 160) \<or> n = 173
        then [CHR 0x5C, CHR ''x'', hex_digit (n div 16), hex_digit (n mod 16)]
      else [c])"

definition py_repr :: "string option \<Rightarrow> string" where
  "py_repr x =
     (case x of
        None \<Rightarrow> ''None''
      | Some s \<Rightarrow>
          (let q = (if CHR 0x27 \<in> set s \<and> CHR 0x22 \<notin> set s then CHR 0x22 else CHR 0x27)
           in [q] @ concat (map (repr_char q) s) @ [q]))"

text \<open>\<open>os.path.dirname(p)\<close>\<close>

definition dirname :: "string \<Rightarrow> string" where
  "dirname p =
     (let head = rev (dropWhile (\<lambda>c. c \<noteq> CHR ''/'') (rev p))
      in if head \<noteq> [] \<and> (\<exists>c \<in> set head. c \<noteq> CHR ''/'')
         then rev (dropWhile (\<lambda>c. c = CHR ''/'') (rev head))
         else head)"

text \<open>\<open>os.path.expanduser(path)\<close>, which reads the environment and the account database.\<close>

definition expanduser :: "string \<Rightarrow> world \<Rightarrow> string" where
  "expanduser path w =
     (case path of
        [] \<Rightarrow> path
      | c # rest \<Rightarrow>
          if c \<noteq> CHR ''~'' then path
          else
            (let nm = takeWhile (\<lambda>c. c \<noteq> CHR ''/'') rest;
                 tl = dropWhile (\<lambda>c. c \<noteq> CHR ''/'') rest;
                 userhome =
                   (if nm = []
                    then (case environ w ''HOME'' of
                            Some h \<Rightarrow> Some h
                          | None \<Rightarrow> map_option pw_dir (passwd_uid w (uid w)))
                    else map_option pw_dir (passwd w nm))
             in case userhome of
                  None \<Rightarrow> path
                | Some h \<Rightarrow>
                    (let r = rev (dropWhile (\<lambda>c. c = CHR ''/'') (rev h)) @ tl
                     in if r = [] then ''/'' else r)))"

section \<open>The daemon\<close>

text \<open>
  A \<open>Daemon\<close> object as \<open>__init__\<close> has left it: \<open>stdin\<close>, \<open>stdout\<close> and \<open>pidfile\<close>
  hold paths, the defaults filled in; \<open>cwd\<close>, \<open>user\<close>, \<open>group\<close> and \<open>stderr\<close> may be
  None.
\<close>

record daemon =
  name :: string
  prog :: string
  args :: "string list"
  cwd :: "string option"
  user :: "string option"
  grp :: "string option"
  stdin :: string
  stdout :: string
  stderr :: "string option"
  pidfile :: string

abbreviation Status_Started :: string where "Status_Started \<equiv> ''started''"
abbreviation Status_Stopped :: string where "Status_Stopped \<equiv> ''stopped''"

definition process_exists :: "int \<Rightarrow> bool prog" where
  "process_exists p =
     (if p = 0 then ret False
      else except_OSError (bnd (os_kill p 0) (\<lambda>_. ret True)) (\<lambda>e. ret False))"

definition pid :: "daemon \<Rightarrow> int prog" where
  "pid d =
     bnd (except_OSError
            (bnd (os_open_read (pidfile d)) (\<lambda>txt. ret (readline txt)))
            (\<lambda>e. if e \<noteq> ENOENT then throw (OSError e) else ret ''''))
         (\<lambda>pid_str. ret (case py_int pid_str of Some n \<Rightarrow> n | None \<Rightarrow> 0))"

definition status :: "daemon \<Rightarrow> string prog" where
  "status d =
     bnd (pid d) (\<lambda>p. bnd (process_exists p)
       (\<lambda>b. ret (if b then Status_Started else Status_Stopped)))"

text \<open>Python truth of an optional string: neither None nor the empty string.\<close>

definition truthy_str :: "string option \<Rightarrow> bool" where
  "truthy_str x = (case x of None \<Rightarrow> False | Some s \<Rightarrow> s \<noteq> [])"

text \<open>
  \<open>Daemon.log(*message, end=e)\<close>: \<open>print\<close> joins its arguments with a space and
  appends \<open>e\<close>.
\<close>

definition log :: "daemon \<Rightarrow> string list \<Rightarrow> string \<Rightarrow> unit prog" where
  "log d message e =
     (\<lambda>w. (Inr (),
        w\<lparr>trace := trace w @
             [Print ((if log_newline w (name d)
                      then join_sp ((''-  ['' @ name d @ '']'') # message)
                      else join_sp message) @ e)],
          log_newline := (log_newline w)(name d := (CHR 0x0A \<in> set e))\<rparr>))"

abbreviation nl :: string where "nl \<equiv> [CHR 0x0A]"

subsection \<open>What a Python function returns\<close>

datatype pyval = PyNone | PyBool bool

fun truthy :: "pyval \<Rightarrow> bool" where
  "truthy PyNone = False"
| "truthy (PyBool b) = b"

subsection \<open>System calls of the start protocol\<close>

definition getpwnam :: "string \<Rightarrow> pwent prog" where
  "getpwnam u = (\<lambda>w. case passwd w u of None \<Rightarrow> (Inl (KeyError u), w) | Some r \<Rightarrow> (Inr r, w))"

definition getgrnam :: "string \<Rightarrow> int prog" where
  "getgrnam g = (\<lambda>w. case groups w g of None \<Rightarrow> (Inl (KeyError g), w) | Some r \<Rightarrow> (Inr r, w))"

text \<open>\<open>os.path.exists(path)\<close>: false when the stat call fails, whatever the reason.\<close>

definition path_exists :: "string \<Rightarrow> bool prog" where
  "path_exists path =
     (\<lambda>w. case syscall (CStat path) None w of
        (Some e, w') \<Rightarrow> (Inr False, w')
      | (None, w') \<Rightarrow> (Inr True, w'))"

text \<open>\<open>open(path, 'w')\<close> truncates the file; \<open>open(path, 'a+')\<close> creates it when missing.\<close>

definition os_open_write :: "string \<Rightarrow> unit prog" where
  "os_open_write path =
     bnd (os_call (COpen path ''w''))
         (\<lambda>_ w. (Inr (), w\<lparr>files := (files w)(path \<mapsto> []),
                            buffered := (buffered w)(path := [])\<rparr>))"

definition os_open_append :: "string \<Rightarrow> unit prog" where
  "os_open_append path =
     bnd (os_call (COpen path ''a+''))
         (\<lambda>_ w. (Inr (), w\<lparr>files := (files w)(path \<mapsto>
                    (case files w path of None \<Rightarrow> [] | Some t \<Rightarrow> t))\<rparr>))"

text \<open>
  \<open>pidf.write(text)\<close> fills the buffer of the file object; \<open>pidf.close()\<close> writes the
  buffer to the file, which was truncated when it was opened.
\<close>

definition file_write :: "string \<Rightarrow> string \<Rightarrow> unit prog" where
  "file_write path text =
     (\<lambda>w. (Inr (), w\<lparr>trace := trace w @ [Write path text],
                      buffered := (buffered w)(path := buffered w path @ text)\<rparr>))"

definition file_close :: "string \<Rightarrow> unit prog" where
  "file_close path =
     bnd (os_call (CClose path))
         (\<lambda>_ w. (Inr (), w\<lparr>files := (files w)(path \<mapsto> buffered w path)\<rparr>))"

definition os_setuid :: "int \<Rightarrow> unit prog" where
  "os_setuid u = bnd (os_call (CSetuid u)) (\<lambda>_ w. (Inr (), w\<lparr>uid := u\<rparr>))"

definition os_setgid :: "int \<Rightarrow> unit prog" where
  "os_setgid g = os_call (CSetgid g)"

definition putenv :: "string \<Rightarrow> string \<Rightarrow> unit prog" where
  "putenv k v = (\<lambda>w. (Inr (), w\<lparr>environ := (environ w)(k \<mapsto> v)\<rparr>))"

definition getenv :: "string \<Rightarrow> string prog" where
  "getenv k = (\<lambda>w. case environ w k of None \<Rightarrow> (Inl (KeyError k), w) | Some v \<Rightarrow> (Inr v, w))"

text \<open>A call that creates a process answers with the id of the new process.\<close>

definition os_create :: "call \<Rightarrow> int prog" where
  "os_create c =
     (\<lambda>w. case faults w (ticks w) of
        Some e \<Rightarrow> (Inl (OSError e),
                   w\<lparr>ticks := Suc (ticks w), trace := trace w @ [Sys c (Errno e)]\<rparr>)
      | None \<Rightarrow> (Inr (pids w (ticks w)),
                 w\<lparr>ticks := Suc (ticks w),
                   trace := trace w @ [Sys c (Pid (pids w (ticks w)))]\<rparr>))"

text \<open>
  \<open>os.waitpid(p, 0)[1]\<close>: the parent blocks until the child has run to its end. The child
  works on the same files and the same operating system, and on its own copy of the
  variables of the Python process. The status word holds the exit code in its high byte
  and the signal that ended the child in its low byte: \<open>sys.exit(c)\<close> gives the code
  \<open>c\<close>, an exception that nothing catches gives 1, and a child that came back from
  \<open>start\<close> would make \<open>main\<close> return 1, the value of \<open>not None\<close>.
\<close>

definition wait_status :: "(exn + 'a) \<Rightarrow> int" where
  "wait_status r =
     (case r of
        Inl (SystemExit c) \<Rightarrow> 256 * (c mod 256)
      | Inl (Terminated s) \<Rightarrow> s
      | Inl _ \<Rightarrow> 256
      | Inr _ \<Rightarrow> 256)"

definition os_waitpid :: "unit prog \<Rightarrow> int \<Rightarrow> int prog" where
  "os_waitpid child p =
     (\<lambda>w. case child w of (r, wc) \<Rightarrow>
        (case syscall (CWaitpid p) None
                (wc\<lparr>environ := environ w, uid := uid w,
                    log_newline := log_newline w, buffered := buffered w,
                    slept := slept w\<rparr>) of
           (Some e, w') \<Rightarrow> (Inl (OSError e), w')
         | (None, w') \<Rightarrow> (Inr (wait_status r), w')))"

subsection \<open>Daemon.start\<close>

text \<open>The three local variables \<open>home, uid, gid\<close> of \<open>Daemon.start\<close> (lines 157 to 164).\<close>

record identity =
  id_home :: "string option"
  id_uid :: "int option"
  id_gid :: "int option"

definition lookup_identity :: "daemon \<Rightarrow> identity prog" where
  "lookup_identity d =
     bnd (if truthy_str (user d)
          then bnd (getpwnam (case user d of Some u \<Rightarrow> u | None \<Rightarrow> []))
                 (\<lambda>r. ret \<lparr>id_home = Some (pw_dir r), id_uid = Some (pw_uid r),
                            id_gid = Some (pw_gid r)\<rparr>)
          else ret \<lparr>id_home = None, id_uid = None, id_gid = None\<rparr>)
         (\<lambda>i. if truthy_str (grp d)
               then bnd (getgrnam (case grp d of Some g \<Rightarrow> g | None \<Rightarrow> []))
                      (\<lambda>r. ret (i\<lparr>id_gid := Some r\<rparr>))
               else ret i)"

definition makedirs :: "string \<Rightarrow> unit prog" where
  "makedirs path =
     bnd (path_exists path) (\<lambda>b. if \<not> b then os_call (CMakedirs path) else ret ())"

text \<open>
  The code of the child process, after the \<open>if pid > 0\<close> block. It is one function in the
  source; here it is cut into the steps of its \<open>try\<close> block: the change of user and group
  (lines 186 to 201), the change of directory (lines 205 to 210) and the launch (lines 213
  to 228).
\<close>

definition set_ids :: "daemon \<Rightarrow> identity \<Rightarrow> unit prog" where
  "set_ids d i =
     bnd (case id_uid i of
            None \<Rightarrow> ret ()
          | Some u \<Rightarrow>
              except_OSError (os_setuid u)
                (\<lambda>e. if e \<noteq> EPERM then throw (OSError e)
                      else bnd (log d [''not permitted to change to user '' @ py_repr (user d)] nl)
                             (\<lambda>_. throw (SystemExit EPERM))))
         (\<lambda>_. case id_gid i of
            None \<Rightarrow> ret ()
          | Some g \<Rightarrow>
              except_OSError (os_setgid g)
                (\<lambda>e. if e \<noteq> EPERM then throw (OSError e)
                      else bnd (log d [''not permitted to change to group '' @ py_repr (grp d)] nl)
                             (\<lambda>_. throw (SystemExit EPERM))))"

definition change_dir :: "daemon \<Rightarrow> identity \<Rightarrow> unit prog" where
  "change_dir d i =
     bnd (if truthy_str (id_home i)
          then putenv ''HOME'' (case id_home i of Some h \<Rightarrow> h | None \<Rightarrow> [])
          else ret ())
         (\<lambda>_. if truthy_str (cwd d)
               then (\<lambda>w. os_call (CChdir (expanduser (case cwd d of Some c \<Rightarrow> c | None \<Rightarrow> []) w)) w)
               else bnd (getenv ''HOME'') (\<lambda>h. os_call (CChdir h)))"

definition launch :: "daemon \<Rightarrow> unit prog" where
  "launch d =
     bnd (os_open_read (stdin d)) (\<lambda>_.
     bnd (os_open_append (stdout d)) (\<lambda>_.
     bnd (if truthy_str (stderr d)
          then bnd (os_open_append (case stderr d of Some e \<Rightarrow> e | None \<Rightarrow> []))
                 (\<lambda>_. ret (case stderr d of Some e \<Rightarrow> e | None \<Rightarrow> []))
          else ret (stdout d)) (\<lambda>se.
     bnd (log d [''running'', join_sp (map shlex_quote (prog d # args d))] nl) (\<lambda>_.
     bnd (os_call (CDup2 (stdin d) 0)) (\<lambda>_.
     bnd (os_call (CDup2 (stdout d) 1)) (\<lambda>_.
     bnd (os_call (CDup2 se 2)) (\<lambda>_.
     bnd (os_create (CPopen (prog d # args d))) (\<lambda>p.
     bnd (file_write (pidfile d) (str_int p)) (\<lambda>_.
     throw (SystemExit 0))))))))))"

definition detached :: "daemon \<Rightarrow> identity \<Rightarrow> unit prog" where
  "detached d i =
     bnd (makedirs (dirname (pidfile d))) (\<lambda>_.
     bnd (makedirs (dirname (stdin d))) (\<lambda>_.
     bnd (makedirs (dirname (stdout d))) (\<lambda>_.
     bnd (makedirs (dirname (if truthy_str (stderr d)
                             then (case stderr d of Some e \<Rightarrow> e | None \<Rightarrow> [])
                             else stdout d))) (\<lambda>_.
     bnd (os_open_write (pidfile d)) (\<lambda>_.
     try_finally
       (bnd (os_call CSetsid) (\<lambda>_.
        bnd (set_ids d i) (\<lambda>_.
        bnd (change_dir d i) (\<lambda>_.
        launch d))))
       (file_close (pidfile d)))))))"

text \<open>
  \<open>Daemon.start\<close> as the process that called it goes through it. When \<open>os.fork()\<close> answers
  a positive id, this is the parent: the child runs \<open>detached\<close> while the parent waits.
\<close>

definition start :: "daemon \<Rightarrow> pyval prog" where
  "start d =
     bnd (status d) (\<lambda>st.
       if st = Status_Started
       then bnd (log d [''daemon already started''] nl) (\<lambda>_. ret (PyBool True))
       else
         bnd (lookup_identity d) (\<lambda>i.
         bnd (os_create CFork) (\<lambda>p.
           if p > 0
           then bnd (os_waitpid (detached d i) p) (\<lambda>st.
                bnd (if st = 0
                     then bnd (pid d) (\<lambda>q. log d [''started (PID: '' @ str_int q @ '')''] nl)
                     else log d [''could not be started, check the output file eventually''] nl)
                  (\<lambda>_. ret (PyBool True)))
           else bnd (detached d i) (\<lambda>_. ret PyNone))))"

subsection \<open>Daemon.stop\<close>

text \<open>
  The \<open>while\<close> loop of \<open>stop\<close> has no bound of its own: it ends when the clock has advanced
  far enough or the probe fails. The model counts the rounds down from a number it is
  given; \<open>None\<close> says that the rounds were not enough.
\<close>

record config =
  root_dir :: string
  kill_timeout :: rat

text \<open>The defaults that \<open>load_config\<close> sets before it runs the configuration file.\<close>

definition load_config_defaults :: "world \<Rightarrow> config" where
  "load_config_defaults w = \<lparr>root_dir = expanduser ''~/.nocrux'' w, kill_timeout = 10\<rparr>"

type_synonym 'a loop_prog = "world \<Rightarrow> ((exn + 'a) \<times> world) option"

definition olift :: "'a prog \<Rightarrow> 'a loop_prog" where
  "olift m = (\<lambda>w. Some (m w))"

definition obnd :: "'a prog \<Rightarrow> ('a \<Rightarrow> 'b loop_prog) \<Rightarrow> 'b loop_prog" where
  "obnd m f = (\<lambda>w. case m w of (Inl e, w') \<Rightarrow> Some (Inl e, w') | (Inr x, w') \<Rightarrow> f x w')"

text \<open>
  \<open>time.time()\<close> reads the clock of the operating system, to which the time slept is
  added: \<open>time.sleep(t)\<close> lets at least \<open>t\<close> pass.
\<close>

definition time_time :: "rat prog" where
  "time_time =
     (\<lambda>w. (Inr (clock w (ticks w) + slept w),
            w\<lparr>ticks := Suc (ticks w),
              trace := trace w @ [Time (clock w (ticks w) + slept w)]\<rparr>))"

definition time_sleep :: "rat \<Rightarrow> unit prog" where
  "time_sleep t =
     (\<lambda>w. (Inr (), w\<lparr>ticks := Suc (ticks w), trace := trace w @ [Sleep t],
                      slept := slept w + t\<rparr>))"

fun wait_exit :: "nat \<Rightarrow> rat \<Rightarrow> rat \<Rightarrow> int \<Rightarrow> unit loop_prog" where
  "wait_exit 0 tstart timeout p = (\<lambda>w. None)"
| "wait_exit (Suc n) tstart timeout p =
     obnd time_time (\<lambda>now.
       if now - tstart < timeout
       then obnd (process_exists p) (\<lambda>b.
              if b then obnd (time_sleep (1 / 2)) (\<lambda>_. wait_exit n tstart timeout p)
              else olift (ret ()))
       else olift (ret ()))"

text \<open>Lines 247 to 256: what \<open>stop\<close> does once the loop is over.\<close>

definition stop_finish :: "daemon \<Rightarrow> int \<Rightarrow> pyval prog" where
  "stop_finish d p =
     bnd (process_exists p) (\<lambda>b.
       if b
       then bnd (log d [''not stopped.''] '' '') (\<lambda>_.
              try_except_else (os_kill p SIGKILL)
                (\<lambda>e. bnd (log d [''stopped''] nl) (\<lambda>_. ret PyNone))
                (\<lambda>_. bnd (log d [''SIGKILL''] nl) (\<lambda>_. ret PyNone)))
       else bnd (log d [''stopped''] nl) (\<lambda>_. ret PyNone))"

definition otry_except_else ::
  "'a prog \<Rightarrow> (int \<Rightarrow> 'b loop_prog) \<Rightarrow> ('a \<Rightarrow> 'b loop_prog) \<Rightarrow> 'b loop_prog" where
  "otry_except_else m h els =
     (\<lambda>w. case m w of
        (Inl (OSError e), w') \<Rightarrow> h e w'
      | (Inl (KeyError k), w') \<Rightarrow> Some (Inl (KeyError k), w')
      | (Inl OverflowError, w') \<Rightarrow> Some (Inl OverflowError, w')
      | (Inl (SystemExit c), w') \<Rightarrow> Some (Inl (SystemExit c), w')
      | (Inl (Terminated s), w') \<Rightarrow> Some (Inl (Terminated s), w')
      | (Inr x, w') \<Rightarrow> els x w')"

definition stop :: "nat \<Rightarrow> config \<Rightarrow> daemon \<Rightarrow> pyval loop_prog" where
  "stop n cfg d =
     obnd (pid d) (\<lambda>p.
     otry_except_else (os_kill p SIGTERM)
       (\<lambda>e. olift (bnd (log d [''not started''] nl) (\<lambda>_. ret PyNone)))
       (\<lambda>_.
         obnd (log d [''stopping...''] '' '') (\<lambda>_.
         obnd time_time (\<lambda>tstart.
         (\<lambda>w. case wait_exit n tstart (kill_timeout cfg) p w of
                 None \<Rightarrow> None
               | Some (Inl e, w') \<Rightarrow> Some (Inl e, w')
               | Some (Inr _, w') \<Rightarrow> Some (stop_finish d p w'))))))"

section \<open>The commands\<close>

text \<open>
  \<open>main\<close> from line 372 on, where the command and the list \<open>target_daemons\<close> are known.
  The \<open>tail\<close> and \<open>version\<close> commands are left out.
\<close>

datatype command = CmdStatus | CmdStop | CmdStart | CmdRestart

fun status_each :: "daemon list \<Rightarrow> unit prog" where
  "status_each [] = ret ()"
| "status_each (d # ds) =
     bnd (status d) (\<lambda>s. bnd (log d [s] nl) (\<lambda>_. status_each ds))"

fun stop_until_failure :: "nat \<Rightarrow> config \<Rightarrow> daemon list \<Rightarrow> int loop_prog" where
  "stop_until_failure n cfg [] = olift (ret 0)"
| "stop_until_failure n cfg (d # ds) =
     (\<lambda>w. case stop n cfg d w of
        None \<Rightarrow> None
      | Some (Inl e, w') \<Rightarrow> Some (Inl e, w')
      | Some (Inr r, w') \<Rightarrow>
          if \<not> truthy r then Some (Inr 1, w') else stop_until_failure n cfg ds w')"

fun stop_each :: "nat \<Rightarrow> config \<Rightarrow> daemon list \<Rightarrow> unit loop_prog" where
  "stop_each n cfg [] = olift (ret ())"
| "stop_each n cfg (d # ds) =
     (\<lambda>w. case stop n cfg d w of
        None \<Rightarrow> None
      | Some (Inl e, w') \<Rightarrow> Some (Inl e, w')
      | Some (Inr r, w') \<Rightarrow> stop_each n cfg ds w')"

fun start_until_failure :: "daemon list \<Rightarrow> int prog" where
  "start_until_failure [] = ret 0"
| "start_until_failure (d # ds) =
     bnd (start d) (\<lambda>r. if \<not> truthy r then ret 1 else start_until_failure ds)"

definition main :: "nat \<Rightarrow> config \<Rightarrow> command \<Rightarrow> daemon list \<Rightarrow> int loop_prog" where
  "main n cfg cmd target_daemons =
     (case cmd of
        CmdStatus \<Rightarrow> olift (bnd (status_each target_daemons) (\<lambda>_. ret 0))
      | CmdStop \<Rightarrow> stop_until_failure n cfg target_daemons
      | CmdStart \<Rightarrow> olift (start_until_failure target_daemons)
      | CmdRestart \<Rightarrow>
          (\<lambda>w. case stop_each n cfg target_daemons w of
             None \<Rightarrow> None
           | Some (Inl e, w') \<Rightarrow> Some (Inl e, w')
           | Some (Inr _, w') \<Rightarrow> Some (start_until_failure target_daemons w')))"

section \<open>Stating the properties\<close>

text \<open>The events that a program adds to the trace when it runs from \<open>w\<close>.\<close>

definition emitted :: "'a prog \<Rightarrow> world \<Rightarrow> event list" where
  "emitted m w = drop (length (trace w)) (trace (snd (m w)))"

definition is_setuid :: "event \<Rightarrow> bool" where
  "is_setuid ev = (case ev of Sys (CSetuid _) _ \<Rightarrow> True | _ \<Rightarrow> False)"

definition is_setgid :: "event \<Rightarrow> bool" where
  "is_setgid ev = (case ev of Sys (CSetgid _) _ \<Rightarrow> True | _ \<Rightarrow> False)"

definition is_launch :: "event \<Rightarrow> bool" where
  "is_launch ev = (case ev of Sys (CPopen _) _ \<Rightarrow> True | _ \<Rightarrow> False)"

definition is_write :: "event \<Rightarrow> bool" where
  "is_write ev = (case ev of Write _ _ \<Rightarrow> True | _ \<Rightarrow> False)"

text \<open>No event of the kind \<open>Q\<close> comes after an event of the kind \<open>P\<close>.\<close>

fun none_after :: "('a \<Rightarrow> bool) \<Rightarrow> ('a \<Rightarrow> bool) \<Rightarrow> 'a list \<Rightarrow> bool" where
  "none_after P Q [] = True"
| "none_after P Q (x # xs) = ((P x \<longrightarrow> \<not> list_ex Q xs) \<and> none_after P Q xs)"






subsection \<open>Sample daemons and worlds\<close>

definition echo :: daemon where
  "echo = \<lparr>name = ''echo'', prog = ''/bin/sleep'', args = [''5''], cwd = None,
            user = None, grp = None, stdin = ''/dev/null'',
            stdout = ''/home/u/.nocrux/echo.out'', stderr = None,
            pidfile = ''/home/u/.nocrux/echo.pid''\<rparr>"

definition web :: daemon where
  "web = \<lparr>name = ''web'', prog = ''/usr/sbin/httpd'', args = [''-f''], cwd = None,
           user = Some ''www'', grp = Some ''www'', stdin = ''/dev/null'',
           stdout = ''/var/nocrux/web.out'', stderr = None,
           pidfile = ''/var/nocrux/web.pid''\<rparr>"

text \<open>
  An operating system on which every call succeeds, the process created by the n-th call
  gets the id \<open>4000 + n\<close>, and the clock stands still unless the process sleeps.
\<close>

definition quiet_os :: world where
  "quiet_os =
     \<lparr>files = [''/dev/null'' \<mapsto> ''''], faults = (\<lambda>n. None), clock = (\<lambda>n. 0),
      pids = (\<lambda>n. 4000 + int n),
      passwd = [''www'' \<mapsto> \<lparr>pw_dir = ''/var/www'', pw_uid = 33, pw_gid = 33\<rparr>],
      passwd_uid = Map.empty, groups = [''www'' \<mapsto> 33],
      ticks = 0, trace = [], environ = [''HOME'' \<mapsto> ''/home/u''], uid = 1000,
      log_newline = (\<lambda>n. True), buffered = (\<lambda>p. []), slept = 0\<rparr>"

definition www_identity :: identity where
  "www_identity = \<lparr>id_home = Some ''/var/www'', id_uid = Some 33, id_gid = Some 33\<rparr>"

definition denied_os :: world where
  "denied_os = quiet_os\<lparr>files := [''/home/u/.nocrux/echo.pid'' \<mapsto> ''4007''],
                         faults := (\<lambda>n. if n = 0 then Some 13 else None)\<rparr>"

definition running_os :: world where
  "running_os = quiet_os\<lparr>files := [''/home/u/.nocrux/echo.pid'' \<mapsto> ''4007'']\<rparr>"

definition empty_os :: world where
  "empty_os = quiet_os\<lparr>files := [''/home/u/.nocrux/echo.pid'' \<mapsto> '''']\<rparr>"

definition garbage_os :: world where
  "garbage_os = quiet_os\<lparr>files := [''/home/u/.nocrux/echo.pid'' \<mapsto> ''abc'']\<rparr>"

definition minus_one_os :: world where
  "minus_one_os = quiet_os\<lparr>files := [''/home/u/.nocrux/echo.pid'' \<mapsto> ''-1'']\<rparr>"

text \<open>The PID file holds a number that no C int holds, \<open>2 ^ 32\<close>.\<close>

definition huge_os :: world where
  "huge_os = quiet_os\<lparr>files := [''/home/u/.nocrux/echo.pid'' \<mapsto> ''4294967296'']\<rparr>"

text \<open>The PID file names a process that is no longer there: the signal fails with ESRCH.\<close>

definition gone_os :: world where
  "gone_os = running_os\<lparr>faults := (\<lambda>n. if n = 1 then Some 3 else None)\<rparr>"

text \<open>A user who is not root: the ninth call, \<open>setuid\<close>, is refused.\<close>

definition eperm_os :: world where
  "eperm_os = quiet_os\<lparr>faults := (\<lambda>n. if n = 8 then Some EPERM else None)\<rparr>"

text \<open>
  Root, on a kernel that lets only root change the group: once the user id is 33, the
  tenth call of \<open>start\<close>, \<open>setgid\<close>, is refused.
\<close>

definition root_os :: world where
  "root_os = quiet_os\<lparr>uid := 0, environ := [''HOME'' \<mapsto> ''/root'']\<rparr>"

definition strict_root_os :: world where
  "strict_root_os = root_os\<lparr>faults := (\<lambda>n. if n = 9 then Some EPERM else None)\<rparr>"

text \<open>
  A daemon that ends soon after the graceful signal: the probes fail from the eighth call
  of \<open>stop\<close> on, and a later read of the PID file succeeds.
\<close>

definition exited_os :: world where
  "exited_os = running_os\<lparr>faults := (\<lambda>n. if n = 7 \<or> n = 8 \<or> n = 10 then Some 3 else None)\<rparr>"

text \<open>The identity of a daemon without a user and a group.\<close>

definition no_identity :: identity where
  "no_identity = \<lparr>id_home = None, id_uid = None, id_gid = None\<rparr>"

section \<open>Reading the PID file and probing the process\<close>

lemmas prog_defs = ret_def throw_def bnd_def try_except_else_def except_OSError_def
  try_finally_def syscall_def os_call_def os_open_read_def os_kill_def

lemmas text_defs = py_int_def py_strip_def py_isspace_def is_digit_def

lemma pid_open_error:
  assumes "faults w (ticks w) = Some e" "e \<noteq> ENOENT"
  shows "pid d w = (Inl (OSError e),
           w\<lparr>ticks := Suc (ticks w),
             trace := trace w @ [Sys (COpen (pidfile d) ''r'') (Errno e)]\<rparr>)"
  using assms by (simp add: pid_def prog_defs split: option.splits)

text \<open>
  C10. The read of the process id is not total: when opening the PID file fails with an
  errno other than ENOENT (permission denied, say), the OSError leaves \<open>pid\<close>, and with it
  \<open>status\<close>, \<open>start\<close> and \<open>stop\<close>, whose first step is that read; it is not turned into
  the id 0.
\<close>

theorem pid_error_propagates:
  fixes w :: world and d :: daemon and e :: int
  assumes "faults w (ticks w) = Some e" and "e \<noteq> ENOENT"
  defines "w' \<equiv> w\<lparr>ticks := Suc (ticks w),
                   trace := trace w @ [Sys (COpen (pidfile d) ''r'') (Errno e)]\<rparr>"
  shows "pid d w = (Inl (OSError e), w')
       \<and> status d w = (Inl (OSError e), w')
       \<and> start d w = (Inl (OSError e), w')
       \<and> stop n cfg d w = Some (Inl (OSError e), w')"
  using pid_open_error [OF assms(1,2), of d]
  by (simp add: w'_def status_def start_def stop_def bnd_def obnd_def)

theorem pid_error_propagates_witness:
  "faults denied_os (ticks denied_os) = Some 13 \<and> (13::int) \<noteq> ENOENT
   \<and> fst (pid echo denied_os) = Inl (OSError 13)
   \<and> fst (status echo denied_os) = Inl (OSError 13)
   \<and> fst (start echo denied_os) = Inl (OSError 13)
   \<and> map_option fst (stop 30 (load_config_defaults denied_os) echo denied_os)
       = Some (Inl (OSError 13))"
  using pid_error_propagates [of denied_os 13 echo 30 "load_config_defaults denied_os"]
  by (simp add: denied_os_def quiet_os_def)

text \<open>
  Inside the range of a C int the probe behaves as its docstring says: \<open>process_exists\<close>
  answers False for the id 0, without asking the operating system, and answers False
  whenever the probe with signal 0 fails, whatever the errno. \<open>status\<close> is Started exactly
  when \<open>process_exists\<close> holds of the id that \<open>pid\<close> reads, and Stopped exactly when it
  answers False.
\<close>

lemma process_exists_in_range:
  "process_exists 0 w = (Inr False, w)
   \<and> (- 2147483648 \<le> p \<and> p \<le> 2147483647 \<and> faults w (ticks w) = Some e
        \<longrightarrow> fst (process_exists p w) = Inr False)
   \<and> (fst (status d ws) = Inr Status_Started \<longleftrightarrow>
        (\<exists>p w'. pid d ws = (Inr p, w') \<and> fst (process_exists p w') = Inr True))
   \<and> (fst (status d ws) = Inr Status_Stopped \<longleftrightarrow>
        (\<exists>p w'. pid d ws = (Inr p, w') \<and> fst (process_exists p w') = Inr False))"
proof (intro conjI)
  show "process_exists 0 w = (Inr False, w)"
    by (simp add: process_exists_def ret_def)
  show "- 2147483648 \<le> p \<and> p \<le> 2147483647 \<and> faults w (ticks w) = Some e
        \<longrightarrow> fst (process_exists p w) = Inr False"
    by (simp add: process_exists_def prog_defs)
  show "fst (status d ws) = Inr Status_Started \<longleftrightarrow>
        (\<exists>p w'. pid d ws = (Inr p, w') \<and> fst (process_exists p w') = Inr True)"
    by (auto simp: status_def bnd_def ret_def split: prod.splits sum.splits)
  show "fst (status d ws) = Inr Status_Stopped \<longleftrightarrow>
        (\<exists>p w'. pid d ws = (Inr p, w') \<and> fst (process_exists p w') = Inr False)"
    by (auto simp: status_def bnd_def ret_def split: prod.splits sum.splits)
qed

text \<open>
  C7. \<open>process_exists\<close> does not answer False for every id whose probe fails. An id above
  \<open>2 ^ 31 - 1\<close> or below \<open>- 2 ^ 31\<close> does not fit the C int that \<open>os.kill\<close> converts it to:
  the call raises OverflowError before the operating system is asked, \<open>except OSError\<close>
  does not catch it, and \<open>process_exists\<close> raises where its docstring says that it returns
  False. Such an id is read from a PID file that holds \<open>4294967296\<close>: \<open>status\<close> is then
  neither Started nor Stopped, and the status command ends with the exception, its line for
  the daemon not printed. For the id 0 the answer is False, and so it is for an id in the
  range whose probe the operating system refuses.
\<close>

theorem process_exists_raises_out_of_range:
  "process_exists (2147483648 + int k) w = (Inl OverflowError, w)
   \<and> process_exists (- 2147483649 - int k) w = (Inl OverflowError, w)
   \<and> fst (pid echo huge_os) = Inr 4294967296
   \<and> emitted (status echo) huge_os = [Sys (COpen ''/home/u/.nocrux/echo.pid'' ''r'') Done]
   \<and> fst (status echo huge_os) = Inl OverflowError
   \<and> map_option fst (main 30 (load_config_defaults huge_os) CmdStatus [echo] huge_os)
        = Some (Inl OverflowError)
   \<and> emitted (status_each [echo]) huge_os
        = [Sys (COpen ''/home/u/.nocrux/echo.pid'' ''r'') Done]
   \<and> process_exists 0 w = (Inr False, w)
   \<and> fst (process_exists 4007 denied_os) = Inr False
   \<and> fst (status echo running_os) = Inr Status_Started
   \<and> fst (status echo quiet_os) = Inr Status_Stopped"
proof (intro conjI)
  show "process_exists (2147483648 + int k) w = (Inl OverflowError, w)"
    by (simp add: process_exists_def prog_defs)
  show "process_exists (- 2147483649 - int k) w = (Inl OverflowError, w)"
    by (simp add: process_exists_def prog_defs)
  have p: "pid echo huge_os
        = (Inr 4294967296, huge_os\<lparr>ticks := 1,
             trace := [Sys (COpen ''/home/u/.nocrux/echo.pid'' ''r'') Done]\<rparr>)"
    by (simp add: pid_def prog_defs text_defs Let_def huge_os_def quiet_os_def echo_def)
  show "fst (pid echo huge_os) = Inr 4294967296"
    by (simp add: p)
  have s: "status echo huge_os
        = (Inl OverflowError, huge_os\<lparr>ticks := 1,
             trace := [Sys (COpen ''/home/u/.nocrux/echo.pid'' ''r'') Done]\<rparr>)"
    by (simp add: status_def p process_exists_def prog_defs)
  show "emitted (status echo) huge_os = [Sys (COpen ''/home/u/.nocrux/echo.pid'' ''r'') Done]"
    by (simp add: emitted_def s) (simp add: huge_os_def quiet_os_def)
  show "fst (status echo huge_os) = Inl OverflowError"
    by (simp add: s)
  show "map_option fst (main 30 (load_config_defaults huge_os) CmdStatus [echo] huge_os)
        = Some (Inl OverflowError)"
    by (simp add: main_def olift_def bnd_def s)
  show "emitted (status_each [echo]) huge_os
        = [Sys (COpen ''/home/u/.nocrux/echo.pid'' ''r'') Done]"
    by (simp add: emitted_def bnd_def s) (simp add: huge_os_def quiet_os_def)
  show "process_exists 0 w = (Inr False, w)"
    by (simp add: process_exists_def ret_def)
  show "fst (process_exists 4007 denied_os) = Inr False"
    by (simp add: process_exists_def prog_defs Let_def denied_os_def quiet_os_def)
  show "fst (status echo running_os) = Inr Status_Started"
    by (simp add: status_def process_exists_def pid_def prog_defs text_defs Let_def
          running_os_def quiet_os_def echo_def)
  show "fst (status echo quiet_os) = Inr Status_Stopped"
    by (simp add: status_def process_exists_def pid_def prog_defs text_defs Let_def
          quiet_os_def echo_def)
qed

lemmas start_defs = status_def process_exists_def pid_def log_def truthy_str_def
  getpwnam_def getgrnam_def path_exists_def os_open_write_def os_open_append_def
  file_write_def file_close_def os_setuid_def os_setgid_def putenv_def getenv_def
  os_create_def wait_status_def os_waitpid_def lookup_identity_def makedirs_def
  set_ids_def change_dir_def launch_def detached_def start_def dirname_def expanduser_def
  str_int_def shlex_quote_def shlex_safe_def py_repr_def repr_char_def hex_digit_def

lemmas stop_defs = olift_def obnd_def otry_except_else_def time_time_def time_sleep_def
  stop_finish_def stop_def

text \<open>
  C5. A PID file that is missing, empty or holds \<open>abc\<close> is read as the id 0. A PID file
  that holds \<open>-1\<close> is read as the id -1, not 0: \<open>int('-1')\<close> raises no ValueError. The
  probe then goes to the id -1, which stands for all the processes of the user, so that
  \<open>status\<close> answers Started as soon as the probe is delivered.
\<close>

theorem pid_minus_one_not_sentinel:
  "fst (pid echo quiet_os) = Inr 0
   \<and> fst (pid echo empty_os) = Inr 0
   \<and> fst (pid echo garbage_os) = Inr 0
   \<and> fst (pid echo minus_one_os) = Inr (- 1)
   \<and> emitted (status echo) minus_one_os
        = [Sys (COpen ''/home/u/.nocrux/echo.pid'' ''r'') Done, Sys (CKill (- 1) 0) Done]
   \<and> fst (status echo minus_one_os) = Inr Status_Started"
  by (simp add: emitted_def status_def process_exists_def pid_def prog_defs text_defs Let_def
       echo_def quiet_os_def empty_os_def garbage_os_def minus_one_os_def)

section \<open>What the commands report\<close>

lemma stop_returns_None: "stop n cfg d w = Some (Inr v, w') \<Longrightarrow> v = PyNone"
  by (auto simp: stop_def obnd_def otry_except_else_def olift_def stop_finish_def log_def
                 bnd_def ret_def try_except_else_def
           split: prod.splits sum.splits exn.splits option.splits if_splits)

lemma stop_command_never_0:
  "main n cfg CmdStop (d # ds) w = Some (Inr c, w') \<Longrightarrow> c = 1"
  by (auto simp: main_def split: option.splits prod.splits sum.splits if_splits
           dest!: stop_returns_None)

text \<open>
  C2. \<open>stop\<close> has no \<open>return\<close> statement: on every path it gives None, which \<open>main\<close>
  reads as a failure. When the graceful signal cannot be delivered, \<open>stop\<close> prints
  "not started" and the stop command ends with the code 1, not 0. When the PID file is
  missing, the id is 0 and the signal goes to the process group of nocrux itself.
\<close>

theorem stop_not_started_exit_code:
  "map_option (\<lambda>(r, w). (r, trace w)) (stop 30 (load_config_defaults gone_os) echo gone_os)
     = Some (Inr PyNone,
             [Sys (COpen ''/home/u/.nocrux/echo.pid'' ''r'') Done,
              Sys (CKill 4007 SIGTERM) (Errno 3),
              Print (''-  [echo] not started'' @ nl)])
   \<and> map_option fst (main 30 (load_config_defaults gone_os) CmdStop [echo] gone_os)
     = Some (Inr 1)
   \<and> map_option (\<lambda>(r, w). (r, trace w)) (stop 30 (load_config_defaults quiet_os) echo quiet_os)
     = Some (Inl (Terminated SIGTERM),
             [Sys (COpen ''/home/u/.nocrux/echo.pid'' ''r'') (Errno ENOENT),
              Sys (CKill 0 SIGTERM) Done])"
  by (simp add: main_def stop_defs status_def process_exists_def pid_def log_def
       prog_defs text_defs Let_def echo_def gone_os_def running_os_def quiet_os_def)

text \<open>
  C3. \<open>start\<close> returns True on both branches of the parent: when the child ends with a
  status other than 0 it prints that the daemon could not be started and still returns
  True, so that the start command ends with the code 0.
\<close>

theorem start_failure_exit_code:
  "fst (start web eperm_os) = Inr (PyBool True)
   \<and> emitted (start web) eperm_os
     = [Sys (COpen ''/var/nocrux/web.pid'' ''r'') (Errno ENOENT),
        Sys CFork (Pid 4001),
        Sys (CStat ''/var/nocrux'') Done, Sys (CStat ''/dev'') Done,
        Sys (CStat ''/var/nocrux'') Done, Sys (CStat ''/var/nocrux'') Done,
        Sys (COpen ''/var/nocrux/web.pid'' ''w'') Done,
        Sys CSetsid Done,
        Sys (CSetuid 33) (Errno EPERM),
        Print (''-  [web] not permitted to change to user '' @ [CHR 0x27] @ ''www''
               @ [CHR 0x27] @ nl),
        Sys (CClose ''/var/nocrux/web.pid'') Done,
        Sys (CWaitpid 4001) Done,
        Print (''-  [web] could not be started, check the output file eventually'' @ nl)]
   \<and> map_option fst (main 30 (load_config_defaults eperm_os) CmdStart [web] eperm_os)
     = Some (Inr 0)"
  by (simp add: main_def olift_def emitted_def start_defs prog_defs text_defs Let_def
       web_def eperm_os_def quiet_os_def)

section \<open>The detached flow\<close>

text \<open>
  C1. The child changes the user id first and the group id after it (lines 186 to 201),
  not the group first. For a daemon with a user and a group, started by root, the trace
  shows \<open>setuid\<close> before \<open>setgid\<close>; on a kernel that lets only root change the group, the
  \<open>setgid\<close> that comes second is refused and the daemon is not started.
\<close>

theorem user_id_changed_before_group_id:
  "lookup_identity web root_os = (Inr www_identity, root_os)
   \<and> take 3 (drop 5 (emitted (detached web www_identity) root_os))
     = [Sys CSetsid Done, Sys (CSetuid 33) Done, Sys (CSetgid 33) Done]
   \<and> \<not> none_after is_setuid is_setgid (emitted (detached web www_identity) root_os)
   \<and> take 5 (drop 7 (emitted (start web) strict_root_os))
     = [Sys CSetsid Done, Sys (CSetuid 33) Done, Sys (CSetgid 33) (Errno EPERM),
        Print (''-  [web] not permitted to change to group '' @ [CHR 0x27] @ ''www''
               @ [CHR 0x27] @ nl),
        Sys (CClose ''/var/nocrux/web.pid'') Done]
   \<and> last (emitted (start web) strict_root_os)
     = Print (''-  [web] could not be started, check the output file eventually'' @ nl)"
  by (simp add: emitted_def start_defs prog_defs text_defs Let_def is_setuid_def is_setgid_def
       web_def www_identity_def strict_root_os_def root_os_def quiet_os_def)

section \<open>Starting a daemon that is started\<close>

lemma py_int_Nil: "py_int [] = None"
  by (simp add: py_int_def py_strip_def)

lemma pid_ok:
  "faults w (ticks w) = None \<Longrightarrow> files w (pidfile d) = Some body \<Longrightarrow>
   pid d w = (Inr (case py_int (readline body) of Some n \<Rightarrow> n | None \<Rightarrow> 0),
              w\<lparr>ticks := Suc (ticks w),
                trace := trace w @ [Sys (COpen (pidfile d) ''r'') Done]\<rparr>)"
  by (simp add: pid_def prog_defs)

lemma pid_missing:
  "faults w (ticks w) = None \<Longrightarrow> files w (pidfile d) = None \<Longrightarrow>
   pid d w = (Inr 0, w\<lparr>ticks := Suc (ticks w),
                trace := trace w @ [Sys (COpen (pidfile d) ''r'') (Errno ENOENT)]\<rparr>)"
  by (simp add: pid_def prog_defs py_int_Nil)

lemma pid_enoent:
  "faults w (ticks w) = Some ENOENT \<Longrightarrow>
   pid d w = (Inr 0, w\<lparr>ticks := Suc (ticks w),
                trace := trace w @ [Sys (COpen (pidfile d) ''r'') (Errno ENOENT)]\<rparr>)"
  by (simp add: pid_def prog_defs py_int_Nil split: option.splits)

lemma process_exists_found:
  "p \<noteq> 0 \<Longrightarrow> - 2147483648 \<le> p \<Longrightarrow> p \<le> 2147483647 \<Longrightarrow> faults w (ticks w) = None \<Longrightarrow>
   process_exists p w = (Inr True, w\<lparr>ticks := Suc (ticks w),
                           trace := trace w @ [Sys (CKill p 0) Done]\<rparr>)"
  by (simp add: process_exists_def prog_defs)

lemma process_exists_failed:
  "p \<noteq> 0 \<Longrightarrow> - 2147483648 \<le> p \<Longrightarrow> p \<le> 2147483647 \<Longrightarrow> faults w (ticks w) = Some e \<Longrightarrow>
   process_exists p w = (Inr False, w\<lparr>ticks := Suc (ticks w),
                           trace := trace w @ [Sys (CKill p 0) (Errno e)]\<rparr>)"
  by (simp add: process_exists_def prog_defs)

lemma process_exists_overflow:
  "p < - 2147483648 \<or> 2147483647 < p \<Longrightarrow> process_exists p w = (Inl OverflowError, w)"
  by (auto simp add: process_exists_def prog_defs)

lemma process_exists_True:
  assumes "fst (process_exists p w) = Inr True"
  shows "p \<noteq> 0 \<and> process_exists p w = (Inr True, w\<lparr>ticks := Suc (ticks w),
                           trace := trace w @ [Sys (CKill p 0) Done]\<rparr>)"
proof -
  have z: "p \<noteq> 0" using assms by (auto simp: process_exists_def ret_def)
  have r: "- 2147483648 \<le> p \<and> p \<le> 2147483647"
    using assms process_exists_overflow [of p w]
    by (cases "p < - 2147483648 \<or> 2147483647 < p") auto
  show ?thesis
  proof (cases "faults w (ticks w)")
    case None
    then show ?thesis using z r by (simp add: process_exists_found)
  next
    case (Some e)
    then show ?thesis using z r assms by (simp add: process_exists_failed)
  qed
qed

lemma pid_nonzero:
  assumes "pid d w = (Inr p, w')" "p \<noteq> 0"
  shows "w' = w\<lparr>ticks := Suc (ticks w),
                trace := trace w @ [Sys (COpen (pidfile d) ''r'') Done]\<rparr>
         \<and> faults w (ticks w) = None
         \<and> (\<exists>body. files w (pidfile d) = Some body \<and> py_int (readline body) = Some p)"
proof (cases "faults w (ticks w)")
  case None
  then have f: "faults w (ticks w) = None" by simp
  show ?thesis
  proof (cases "files w (pidfile d)")
    case None
    then show ?thesis using f assms by (simp add: pid_missing)
  next
    case (Some body)
    then show ?thesis using f assms by (auto simp add: pid_ok split: option.splits)
  qed
next
  case (Some e)
  then show ?thesis using assms pid_enoent [of w d] pid_open_error [of w e d]
    by (cases "e = ENOENT") auto
qed

lemma status_started_shape:
  assumes "fst (status d w) = Inr Status_Started"
  shows "\<exists>p. p \<noteq> 0 \<and> fst (pid d w) = Inr p \<and> status d w = (Inr Status_Started,
           w\<lparr>ticks := Suc (Suc (ticks w)),
             trace := trace w @ [Sys (COpen (pidfile d) ''r'') Done, Sys (CKill p 0) Done]\<rparr>)"
proof -
  obtain r w1 where pw: "pid d w = (r, w1)" by (cases "pid d w")
  from assms pw obtain p where r: "r = Inr p"
    by (cases r) (auto simp: status_def bnd_def)
  obtain b w2 where ex: "process_exists p w1 = (b, w2)" by (cases "process_exists p w1")
  from assms pw r ex have b: "b = Inr True"
    by (cases b) (auto simp: status_def bnd_def ret_def split: if_splits)
  from process_exists_True [of p w1] ex b
  have p0: "p \<noteq> 0" and w2: "w2 = w1\<lparr>ticks := Suc (ticks w1),
                           trace := trace w1 @ [Sys (CKill p 0) Done]\<rparr>" by auto
  from pid_nonzero [of d w p w1] pw r p0
  have w1: "w1 = w\<lparr>ticks := Suc (ticks w),
                trace := trace w @ [Sys (COpen (pidfile d) ''r'') Done]\<rparr>" by simp
  have "status d w = (Inr Status_Started, w2)"
    using pw r ex b by (simp add: status_def bnd_def ret_def)
  then show ?thesis using p0 pw r w1 w2 by auto
qed

text \<open>
  C8. When \<open>status\<close> is Started, \<open>start\<close> prints that the daemon is already started and
  returns True. All it does is the read of the PID file and the probe that \<open>status\<close>
  makes, and the print: no fork, no launch, no write; the files are as they were.
\<close>

theorem start_when_started:
  assumes "fst (status d w) = Inr Status_Started"
  shows "\<exists>p. fst (pid d w) = Inr p
       \<and> fst (start d w) = Inr (PyBool True)
       \<and> emitted (start d) w
           = [Sys (COpen (pidfile d) ''r'') Done, Sys (CKill p 0) Done,
              Print ((if log_newline w (name d)
                      then ''-  ['' @ name d @ '']'' @ '' '' @ ''daemon already started''
                      else ''daemon already started'') @ nl)]
       \<and> files (snd (start d w)) = files w
       \<and> buffered (snd (start d w)) = buffered w"
proof -
  from status_started_shape [OF assms] obtain p where
    p: "status d w = (Inr Status_Started,
           w\<lparr>ticks := Suc (Suc (ticks w)),
             trace := trace w @ [Sys (COpen (pidfile d) ''r'') Done, Sys (CKill p 0) Done]\<rparr>)"
    and q: "fst (pid d w) = Inr p"
    by blast
  have "fst (start d w) = Inr (PyBool True)"
    using p by (simp add: start_def bnd_def ret_def log_def)
  moreover have "emitted (start d) w
           = [Sys (COpen (pidfile d) ''r'') Done, Sys (CKill p 0) Done,
              Print ((if log_newline w (name d)
                      then ''-  ['' @ name d @ '']'' @ '' '' @ ''daemon already started''
                      else ''daemon already started'') @ nl)]"
    using p by (simp add: start_def bnd_def ret_def log_def emitted_def)
  moreover have "files (snd (start d w)) = files w \<and> buffered (snd (start d w)) = buffered w"
    using p by (simp add: start_def bnd_def ret_def log_def)
  ultimately show ?thesis using q by blast
qed

theorem start_when_started_witness:
  "fst (status echo running_os) = Inr Status_Started
   \<and> fst (start echo running_os) = Inr (PyBool True)
   \<and> emitted (start echo) running_os
       = [Sys (COpen ''/home/u/.nocrux/echo.pid'' ''r'') Done, Sys (CKill 4007 0) Done,
          Print (''-  [echo] daemon already started'' @ nl)]
   \<and> files (snd (start echo running_os)) = files running_os"
proof -
  have s: "fst (status echo running_os) = Inr Status_Started"
    by (simp add: status_def pid_def process_exists_def prog_defs text_defs Let_def
          running_os_def quiet_os_def echo_def)
  have p: "fst (pid echo running_os) = Inr 4007"
    by (simp add: pid_def prog_defs text_defs Let_def running_os_def quiet_os_def echo_def)
  from start_when_started [OF s] p s show ?thesis
    by (auto simp: running_os_def quiet_os_def echo_def)
qed

section \<open>The PID file after a stop\<close>


lemma pid_frame: "pid d w = (r, w') \<Longrightarrow> files w' = files w \<and> faults w' = faults w"
  by (auto simp: pid_def prog_defs Let_def split: option.splits if_splits)

lemma process_exists_frame:
  "process_exists p w = (r, w') \<Longrightarrow> files w' = files w \<and> faults w' = faults w"
  by (auto simp: process_exists_def prog_defs Let_def split: option.splits if_splits)

lemma status_frame: "status d w = (r, w') \<Longrightarrow> files w' = files w \<and> faults w' = faults w"
  by (auto simp: status_def bnd_def ret_def split: prod.splits sum.splits
           dest!: pid_frame process_exists_frame)

lemma wait_exit_frame:
  "wait_exit n t0 T p w = Some (r, w') \<Longrightarrow> files w' = files w \<and> faults w' = faults w"
proof (induction n arbitrary: w)
  case 0
  then show ?case by simp
next
  case (Suc n)
  then show ?case
    by (auto simp: obnd_def olift_def time_time_def time_sleep_def ret_def
             split: prod.splits sum.splits if_splits
             dest!: process_exists_frame)
qed

lemma os_kill_frame:
  "os_kill p s w = (r, w') \<Longrightarrow> files w' = files w \<and> faults w' = faults w"
  by (auto simp: prog_defs Let_def split: option.splits if_splits)

lemma stop_finish_frame:
  "stop_finish d p w = (r, w') \<Longrightarrow> files w' = files w \<and> faults w' = faults w"
  by (auto simp: stop_finish_def log_def bnd_def ret_def try_except_else_def
           split: prod.splits sum.splits if_splits exn.splits
           dest!: process_exists_frame os_kill_frame)

lemma stop_frame:
  "stop n cfg d w = Some (r, w') \<Longrightarrow> files w' = files w \<and> faults w' = faults w"
  by (auto simp: stop_def obnd_def otry_except_else_def olift_def log_def time_time_def
                 bnd_def ret_def
           split: prod.splits sum.splits exn.splits option.splits
           dest!: pid_frame os_kill_frame wait_exit_frame stop_finish_frame)


lemma start_parent_frame:
  assumes "status d w0 = (Inr st, w1)" "st \<noteq> Status_Started"
    "lookup_identity d w1 = (Inr i, w2)" "os_create CFork w2 = (Inr c, w3)" "0 < c"
  shows "files (snd (start d w0)) = files (snd (detached d i w3))"
proof -
  obtain r wc where ch: "detached d i w3 = (r, wc)" by (cases "detached d i w3")
  have st: "start d w0 =
      bnd (os_waitpid (detached d i) c) (\<lambda>st.
        bnd (if st = 0
             then bnd (pid d) (\<lambda>q. log d [''started (PID: '' @ str_int q @ '')''] nl)
             else log d [''could not be started, check the output file eventually''] nl)
          (\<lambda>_. ret (PyBool True))) w3"
    using assms by (simp add: start_def bnd_def)
  show ?thesis
    unfolding st using ch
    by (auto simp: bnd_def ret_def log_def os_waitpid_def syscall_def Let_def
             split: prod.splits sum.splits option.splits if_splits
             dest!: pid_frame)
qed

text \<open>
  C9. Nothing in the supervising flow writes or removes the PID file: \<open>pid\<close> and
  \<open>status\<close> leave the files as they are, the parent in \<open>start\<close> leaves them as the
  child left them, and \<open>stop\<close> leaves them as they are. After \<open>stop\<close> the PID file holds
  what it held, so a read that succeeds gives the same id again, and \<open>status\<close> says
  Stopped exactly when the probe of that id fails.
\<close>

theorem stop_keeps_pid_file:
  assumes "stop n cfg d w = Some (r, w')"
  shows "files w' = files w
       \<and> (faults w (ticks w) = None \<and> faults w' (ticks w') = None
            \<longrightarrow> fst (pid d w') = fst (pid d w))
       \<and> (fst (status d w') = Inr Status_Stopped \<longleftrightarrow>
            (\<exists>p w1. pid d w' = (Inr p, w1) \<and> fst (process_exists p w1) = Inr False))
       \<and> files (snd (pid d w0)) = files w0
       \<and> files (snd (status d w0)) = files w0
       \<and> (status d w0 = (Inr st, w1) \<and> st \<noteq> Status_Started
            \<and> lookup_identity d w1 = (Inr i, w2) \<and> os_create CFork w2 = (Inr c, w3) \<and> 0 < c
            \<longrightarrow> files (snd (start d w0)) = files (snd (detached d i w3)))"
proof (intro conjI)
  show f: "files w' = files w" using stop_frame [OF assms] by simp
  show "faults w (ticks w) = None \<and> faults w' (ticks w') = None
            \<longrightarrow> fst (pid d w') = fst (pid d w)"
  proof
    assume a: "faults w (ticks w) = None \<and> faults w' (ticks w') = None"
    show "fst (pid d w') = fst (pid d w)"
    proof (cases "files w (pidfile d)")
      case None
      then show ?thesis using a f by (simp add: pid_missing)
    next
      case (Some body)
      then show ?thesis using a f by (simp add: pid_ok)
    qed
  qed
  show "fst (status d w') = Inr Status_Stopped \<longleftrightarrow>
            (\<exists>p w1. pid d w' = (Inr p, w1) \<and> fst (process_exists p w1) = Inr False)"
    by (auto simp: status_def bnd_def ret_def split: prod.splits sum.splits)
  show "files (snd (pid d w0)) = files w0"
    using pid_frame [of d w0] by (cases "pid d w0") simp
  show "files (snd (status d w0)) = files w0"
    using status_frame [of d w0] by (cases "status d w0") simp
  show "status d w0 = (Inr st, w1) \<and> st \<noteq> Status_Started
            \<and> lookup_identity d w1 = (Inr i, w2) \<and> os_create CFork w2 = (Inr c, w3) \<and> 0 < c
            \<longrightarrow> files (snd (start d w0)) = files (snd (detached d i w3))"
    using start_parent_frame by blast
qed


lemma wait_exit_numeral:
  "wait_exit (numeral k) tstart timeout p =
     obnd time_time (\<lambda>now.
       if now - tstart < timeout
       then obnd (process_exists p) (\<lambda>b.
              if b then obnd (time_sleep (1 / 2)) (\<lambda>_. wait_exit (pred_numeral k) tstart timeout p)
              else olift (ret ()))
       else olift (ret ()))"
  by (simp add: numeral_eq_Suc)

lemmas stop_run_defs = wait_exit_numeral stop_defs status_def process_exists_def pid_def log_def
  prog_defs text_defs Let_def load_config_defaults_def

theorem stop_keeps_pid_file_witness:
  "stop 30 (load_config_defaults exited_os) echo exited_os \<noteq> None
   \<and> faults exited_os (ticks exited_os) = None
   \<and> faults (snd (the (stop 30 (load_config_defaults exited_os) echo exited_os)))
        (ticks (snd (the (stop 30 (load_config_defaults exited_os) echo exited_os)))) = None
   \<and> files (snd (the (stop 30 (load_config_defaults exited_os) echo exited_os)))
       = files exited_os
   \<and> fst (pid echo exited_os) = Inr 4007
   \<and> fst (pid echo (snd (the (stop 30 (load_config_defaults exited_os) echo exited_os))))
       = Inr 4007
   \<and> fst (status echo (snd (the (stop 30 (load_config_defaults exited_os) echo exited_os))))
       = Inr Status_Stopped
   \<and> fst (status echo quiet_os) = Inr Status_Stopped
   \<and> Status_Stopped \<noteq> Status_Started
   \<and> fst (lookup_identity echo (snd (status echo quiet_os))) = Inr no_identity
   \<and> fst (os_create CFork (snd (status echo quiet_os))) = Inr 4001
   \<and> files (snd (start echo quiet_os))
       = files (snd (detached echo no_identity
                      (snd (os_create CFork (snd (status echo quiet_os))))))"
proof -
  let ?cfg = "load_config_defaults exited_os"
  have ne: "stop 30 ?cfg echo exited_os \<noteq> None"
    by (simp add: stop_run_defs echo_def exited_os_def running_os_def quiet_os_def)
  then obtain r w' where s: "stop 30 ?cfg echo exited_os = Some (r, w')"
    by (cases "stop 30 ?cfg echo exited_os") auto
  have t: "ticks w' = 9"
    using s by (auto simp add: stop_run_defs echo_def exited_os_def running_os_def quiet_os_def)
  have fl: "faults w' = faults exited_os"
    using s by (auto simp add: stop_run_defs echo_def exited_os_def running_os_def quiet_os_def)
  have h1: "faults exited_os (ticks exited_os) = None"
    by (simp add: exited_os_def running_os_def quiet_os_def)
  have h2: "faults w' (ticks w') = None"
    using t fl by (simp add: exited_os_def running_os_def quiet_os_def)
  have p: "fst (pid echo exited_os) = Inr 4007"
    by (simp add: pid_def prog_defs text_defs echo_def exited_os_def running_os_def quiet_os_def)
  have st': "fst (status echo quiet_os) = Inr Status_Stopped"
    by (simp add: status_def pid_def process_exists_def prog_defs text_defs echo_def quiet_os_def)
  have st: "status echo quiet_os = (Inr Status_Stopped, snd (status echo quiet_os))"
    using st' by (cases "status echo quiet_os") simp
  have li': "fst (lookup_identity echo (snd (status echo quiet_os))) = Inr no_identity"
    by (simp add: lookup_identity_def truthy_str_def no_identity_def bnd_def ret_def echo_def)
  have li: "lookup_identity echo (snd (status echo quiet_os))
              = (Inr no_identity, snd (status echo quiet_os))"
    by (simp add: lookup_identity_def truthy_str_def no_identity_def bnd_def ret_def echo_def)
  have fk': "fst (os_create CFork (snd (status echo quiet_os))) = Inr 4001"
    by (simp add: os_create_def status_def pid_def process_exists_def prog_defs text_defs
          echo_def quiet_os_def)
  have fk: "os_create CFork (snd (status echo quiet_os))
              = (Inr 4001, snd (os_create CFork (snd (status echo quiet_os))))"
    using fk' by (cases "os_create CFork (snd (status echo quiet_os))") simp
  have sp: "fst (status echo w') = Inr Status_Stopped"
    using s by (auto simp add: stop_run_defs echo_def exited_os_def running_os_def quiet_os_def)
  from stop_keeps_pid_file [OF s, of quiet_os Status_Stopped "snd (status echo quiet_os)"
         no_identity "snd (status echo quiet_os)" 4001
         "snd (os_create CFork (snd (status echo quiet_os)))"]
       ne s h1 h2 p st li fk sp st' li' fk'
  show ?thesis by simp
qed

section \<open>The launch\<close>


lemma os_call_step:
  "os_call c w = (r, w') \<Longrightarrow>
     (\<exists>ev. trace w' = trace w @ [ev]) \<and> buffered w' = buffered w \<and> (\<forall>x. r \<noteq> Inl (SystemExit x))"
  by (auto simp: os_call_def syscall_def Let_def split: option.splits)

lemma log_step:
  "log d m e w = (r, w') \<Longrightarrow>
     r = Inr () \<and> (\<exists>ev. trace w' = trace w @ [ev]) \<and> buffered w' = buffered w"
  by (auto simp: log_def)

lemma makedirs_step:
  "makedirs p w = (r, w') \<Longrightarrow>
     (\<exists>evs. trace w' = trace w @ evs) \<and> buffered w' = buffered w \<and> (\<forall>x. r \<noteq> Inl (SystemExit x))"
  by (auto simp: makedirs_def path_exists_def bnd_def ret_def os_call_def syscall_def Let_def
           split: option.splits if_splits)

lemma os_open_write_step:
  "os_open_write p w = (r, w') \<Longrightarrow>
     (\<exists>evs. trace w' = trace w @ evs) \<and> (\<forall>x. r \<noteq> Inl (SystemExit x))
     \<and> (r = Inr () \<longrightarrow> buffered w' p = [])"
  by (auto simp: os_open_write_def bnd_def os_call_def syscall_def Let_def
           split: option.splits if_splits)

lemma set_ids_step:
  "set_ids d i w = (r, w') \<Longrightarrow>
     (\<exists>evs. trace w' = trace w @ evs) \<and> buffered w' = buffered w \<and> r \<noteq> Inl (SystemExit 0)"
  by (auto simp: set_ids_def os_setuid_def os_setgid_def log_def prog_defs Let_def
           split: option.splits if_splits)

lemma change_dir_step:
  "change_dir d i w = (r, w') \<Longrightarrow>
     (\<exists>evs. trace w' = trace w @ evs) \<and> buffered w' = buffered w \<and> (\<forall>x. r \<noteq> Inl (SystemExit x))"
  by (auto simp: change_dir_def putenv_def getenv_def bnd_def ret_def os_call_def syscall_def Let_def
           split: option.splits if_splits)


lemma launch_step:
  "launch d w = (Inl (SystemExit 0), w') \<Longrightarrow>
     \<exists>evs q. trace w' = trace w @ evs @ [Sys (CPopen (prog d # args d)) (Pid q),
                                            Write (pidfile d) (str_int q)]
            \<and> buffered w' (pidfile d) = buffered w (pidfile d) @ str_int q"
  apply (simp add: launch_def os_open_read_def os_open_append_def log_def os_create_def
       file_write_def bnd_def ret_def throw_def os_call_def syscall_def Let_def
       split: option.splits if_splits prod.splits sum.splits)
  apply (auto simp: append_eq_append_conv2)
  done


lemma bnd_then:
  assumes "bnd m (\<lambda>_. k) w = (Inl (SystemExit 0), w')"
    and "\<And>r w1. m w = (r, w1) \<Longrightarrow>
           (\<exists>evs. trace w1 = trace w @ evs) \<and> Q w1 \<and> r \<noteq> Inl (SystemExit 0)"
  shows "\<exists>w1. k w1 = (Inl (SystemExit 0), w') \<and> (\<exists>evs. trace w1 = trace w @ evs) \<and> Q w1"
proof -
  obtain r w1 where m: "m w = (r, w1)" by (cases "m w")
  from assms(2) [OF m] have q: "(\<exists>evs. trace w1 = trace w @ evs) \<and> Q w1"
    and n: "r \<noteq> Inl (SystemExit 0)" by auto
  from assms(1) m n have "k w1 = (Inl (SystemExit 0), w')"
    by (cases r) (auto simp: bnd_def)
  then show ?thesis using q by blast
qed

lemma file_close_step:
  "file_close p w = (r, w') \<Longrightarrow>
     r \<noteq> Inl (SystemExit 0)
     \<and> (r = Inr () \<longrightarrow> trace w' = trace w @ [Sys (CClose p) Done]
                        \<and> files w' p = Some (buffered w p))"
  by (auto simp: file_close_def bnd_def os_call_def syscall_def Let_def
           split: option.splits if_splits)

lemma try_finally_exit0:
  assumes "try_finally m fin w = (Inl (SystemExit 0), w')"
    and "\<And>w1. fst (fin w1) \<noteq> Inl (SystemExit 0)"
  shows "\<exists>w1. m w = (Inl (SystemExit 0), w1) \<and> fin w1 = (Inr (), w')"
proof -
  obtain r w1 where m: "m w = (r, w1)" by (cases "m w")
  obtain r2 w2 where f: "fin w1 = (r2, w2)" by (cases "fin w1")
  from assms(2) [of w1] f have n: "r2 \<noteq> Inl (SystemExit 0)" by simp
  from assms(1) m f n have "r = Inl (SystemExit 0) \<and> r2 = Inr () \<and> w2 = w'"
    by (auto simp: try_finally_def split: sum.splits exn.splits)
  then show ?thesis using m f by simp
qed

text \<open>
  C4, as the code has it. The child does not replace its own image: it launches the program
  as a new process with \<open>subprocess.Popen\<close>, writes the id of that process to the PID
  file after the launch, closes the file and exits with the status 0. Whenever the child
  ends with the status 0, its last three events are the launch, the write of the id that
  the launch answered, and the close; the PID file then holds that id.
\<close>

theorem launch_then_record:
  assumes "detached d i w = (Inl (SystemExit 0), w')"
  shows "\<exists>evs q. emitted (detached d i) w
                   = evs @ [Sys (CPopen (prog d # args d)) (Pid q),
                            Write (pidfile d) (str_int q),
                            Sys (CClose (pidfile d)) Done]
                \<and> files w' (pidfile d) = Some (str_int q)"
proof -
  let ?pf = "pidfile d"
  from assms have a0:
    "bnd (makedirs (dirname (pidfile d))) (\<lambda>_.
     bnd (makedirs (dirname (stdin d))) (\<lambda>_.
     bnd (makedirs (dirname (stdout d))) (\<lambda>_.
     bnd (makedirs (dirname (if truthy_str (stderr d)
                             then (case stderr d of Some e \<Rightarrow> e | None \<Rightarrow> [])
                             else stdout d))) (\<lambda>_.
     bnd (os_open_write (pidfile d)) (\<lambda>_.
     try_finally
       (bnd (os_call CSetsid) (\<lambda>_.
        bnd (set_ids d i) (\<lambda>_.
        bnd (change_dir d i) (\<lambda>_.
        launch d))))
       (file_close (pidfile d))))))) w = (Inl (SystemExit 0), w')"
    by (simp add: detached_def)
  from bnd_then [OF a0, where Q = "\<lambda>w1. True"] makedirs_step
  obtain w1 where a1:
    "bnd (makedirs (dirname (stdin d))) (\<lambda>_.
     bnd (makedirs (dirname (stdout d))) (\<lambda>_.
     bnd (makedirs (dirname (if truthy_str (stderr d)
                             then (case stderr d of Some e \<Rightarrow> e | None \<Rightarrow> [])
                             else stdout d))) (\<lambda>_.
     bnd (os_open_write (pidfile d)) (\<lambda>_.
     try_finally
       (bnd (os_call CSetsid) (\<lambda>_.
        bnd (set_ids d i) (\<lambda>_.
        bnd (change_dir d i) (\<lambda>_.
        launch d))))
       (file_close (pidfile d)))))) w1 = (Inl (SystemExit 0), w')"
    and t1: "\<exists>evs. trace w1 = trace w @ evs"
    by blast
  from bnd_then [OF a1, where Q = "\<lambda>w1. True"] makedirs_step
  obtain w2 where a2:
    "bnd (makedirs (dirname (stdout d))) (\<lambda>_.
     bnd (makedirs (dirname (if truthy_str (stderr d)
                             then (case stderr d of Some e \<Rightarrow> e | None \<Rightarrow> [])
                             else stdout d))) (\<lambda>_.
     bnd (os_open_write (pidfile d)) (\<lambda>_.
     try_finally
       (bnd (os_call CSetsid) (\<lambda>_.
        bnd (set_ids d i) (\<lambda>_.
        bnd (change_dir d i) (\<lambda>_.
        launch d))))
       (file_close (pidfile d))))) w2 = (Inl (SystemExit 0), w')"
    and t2: "\<exists>evs. trace w2 = trace w1 @ evs"
    by blast
  from bnd_then [OF a2, where Q = "\<lambda>w1. True"] makedirs_step
  obtain w3 where a3:
    "bnd (makedirs (dirname (if truthy_str (stderr d)
                             then (case stderr d of Some e \<Rightarrow> e | None \<Rightarrow> [])
                             else stdout d))) (\<lambda>_.
     bnd (os_open_write (pidfile d)) (\<lambda>_.
     try_finally
       (bnd (os_call CSetsid) (\<lambda>_.
        bnd (set_ids d i) (\<lambda>_.
        bnd (change_dir d i) (\<lambda>_.
        launch d))))
       (file_close (pidfile d)))) w3 = (Inl (SystemExit 0), w')"
    and t3: "\<exists>evs. trace w3 = trace w2 @ evs"
    by blast
  from bnd_then [OF a3, where Q = "\<lambda>w1. True"] makedirs_step
  obtain w4 where a4:
    "bnd (os_open_write (pidfile d)) (\<lambda>_.
     try_finally
       (bnd (os_call CSetsid) (\<lambda>_.
        bnd (set_ids d i) (\<lambda>_.
        bnd (change_dir d i) (\<lambda>_.
        launch d))))
       (file_close (pidfile d))) w4 = (Inl (SystemExit 0), w')"
    and t4: "\<exists>evs. trace w4 = trace w3 @ evs"
    by blast
  have "\<exists>w5. try_finally
       (bnd (os_call CSetsid) (\<lambda>_.
        bnd (set_ids d i) (\<lambda>_.
        bnd (change_dir d i) (\<lambda>_.
        launch d))))
       (file_close (pidfile d)) w5 = (Inl (SystemExit 0), w')
       \<and> (\<exists>evs. trace w5 = trace w4 @ evs) \<and> buffered w5 ?pf = []"
  proof -
    obtain r w5 where o: "os_open_write ?pf w4 = (r, w5)" by (cases "os_open_write ?pf w4")
    from os_open_write_step [OF o] a4 o show ?thesis
      by (cases r) (auto simp: bnd_def)
  qed
  then obtain w5 where a5: "try_finally
       (bnd (os_call CSetsid) (\<lambda>_.
        bnd (set_ids d i) (\<lambda>_.
        bnd (change_dir d i) (\<lambda>_.
        launch d))))
       (file_close (pidfile d)) w5 = (Inl (SystemExit 0), w')"
    and t5: "\<exists>evs. trace w5 = trace w4 @ evs" and b5: "buffered w5 ?pf = []"
    by blast
  have nc: "\<And>w1. fst (file_close ?pf w1) \<noteq> Inl (SystemExit 0)"
    using file_close_step by (metis prod.collapse)
  from try_finally_exit0 [OF a5 nc] obtain w9 where
    a6: "bnd (os_call CSetsid) (\<lambda>_.
        bnd (set_ids d i) (\<lambda>_.
        bnd (change_dir d i) (\<lambda>_.
        launch d))) w5 = (Inl (SystemExit 0), w9)"
    and c: "file_close ?pf w9 = (Inr (), w')"
    by blast
  from bnd_then [OF a6, where Q = "\<lambda>w1. buffered w1 = buffered w5"] os_call_step
  obtain w6 where a7: "bnd (set_ids d i) (\<lambda>_. bnd (change_dir d i) (\<lambda>_. launch d)) w6
                         = (Inl (SystemExit 0), w9)"
    and t6: "\<exists>evs. trace w6 = trace w5 @ evs" and b6: "buffered w6 = buffered w5"
    by metis
  from bnd_then [OF a7, where Q = "\<lambda>w1. buffered w1 = buffered w6"] set_ids_step
  obtain w7 where a8: "bnd (change_dir d i) (\<lambda>_. launch d) w7 = (Inl (SystemExit 0), w9)"
    and t7: "\<exists>evs. trace w7 = trace w6 @ evs" and b7: "buffered w7 = buffered w6"
    by blast
  from bnd_then [OF a8, where Q = "\<lambda>w1. buffered w1 = buffered w7"] change_dir_step
  obtain w8 where a9: "launch d w8 = (Inl (SystemExit 0), w9)"
    and t8: "\<exists>evs. trace w8 = trace w7 @ evs" and b8: "buffered w8 = buffered w7"
    by blast
  from launch_step [OF a9] obtain evs q where
    t9: "trace w9 = trace w8 @ evs @ [Sys (CPopen (prog d # args d)) (Pid q),
                                       Write ?pf (str_int q)]"
    and b9: "buffered w9 ?pf = buffered w8 ?pf @ str_int q"
    by blast
  from file_close_step [OF c] have
    t10: "trace w' = trace w9 @ [Sys (CClose ?pf) Done]"
    and f: "files w' ?pf = Some (buffered w9 ?pf)"
    by auto
  from t1 t2 t3 t4 t5 t6 t7 t8 obtain pre where pre: "trace w8 = trace w @ pre"
    by (metis append_assoc)
  have "emitted (detached d i) w
          = (pre @ evs) @ [Sys (CPopen (prog d # args d)) (Pid q), Write ?pf (str_int q),
                           Sys (CClose ?pf) Done]"
    using assms pre t9 t10 by (simp add: emitted_def)
  moreover have "files w' ?pf = Some (str_int q)"
    using f b9 b8 b7 b6 b5 by simp
  ultimately show ?thesis by blast
qed


lemma digits_of_numeral:
  "digits_of (numeral k) =
     (if (numeral k :: nat) < 10 then [''0123456789'' ! numeral k]
      else digits_of (numeral k div 10) @ [''0123456789'' ! (numeral k mod 10)])"
  by (rule digits_of.simps)

theorem launch_then_record_witness:
  "fst (detached echo no_identity quiet_os) = Inl (SystemExit 0)
   \<and> emitted (detached echo no_identity) quiet_os
       = [Sys (CStat ''/home/u/.nocrux'') Done, Sys (CStat ''/dev'') Done,
          Sys (CStat ''/home/u/.nocrux'') Done, Sys (CStat ''/home/u/.nocrux'') Done,
          Sys (COpen ''/home/u/.nocrux/echo.pid'' ''w'') Done,
          Sys CSetsid Done,
          Sys (CChdir ''/home/u'') Done,
          Sys (COpen ''/dev/null'' ''r'') Done,
          Sys (COpen ''/home/u/.nocrux/echo.out'' ''a+'') Done,
          Print (''-  [echo] running /bin/sleep 5'' @ nl),
          Sys (CDup2 ''/dev/null'' 0) Done,
          Sys (CDup2 ''/home/u/.nocrux/echo.out'' 1) Done,
          Sys (CDup2 ''/home/u/.nocrux/echo.out'' 2) Done]
         @ [Sys (CPopen [''/bin/sleep'', ''5'']) (Pid 4012),
            Write ''/home/u/.nocrux/echo.pid'' ''4012'',
            Sys (CClose ''/home/u/.nocrux/echo.pid'') Done]
   \<and> files (snd (detached echo no_identity quiet_os)) ''/home/u/.nocrux/echo.pid''
       = Some ''4012''"
proof -
  have r: "fst (detached echo no_identity quiet_os) = Inl (SystemExit 0)"
    by (simp add: start_defs prog_defs Let_def echo_def no_identity_def quiet_os_def)
  then have "detached echo no_identity quiet_os
               = (Inl (SystemExit 0), snd (detached echo no_identity quiet_os))"
    by (cases "detached echo no_identity quiet_os") simp
  from launch_then_record [OF this] r show ?thesis
    by (simp add: emitted_def start_defs prog_defs Let_def digits_of_numeral
          echo_def no_identity_def quiet_os_def)
qed

text \<open>
  C4, as the specification states it, fails: in a start of the daemon \<open>echo\<close> the fork answers the
  id 4001 and the launch answers 4014; the PID file holds 4014, the id of the program, which
  is not the id that the fork gave; and the write comes after the launch, not before it.
\<close>

theorem launch_by_exec_counterexample:
  "take 1 (drop 1 (emitted (start echo) quiet_os)) = [Sys CFork (Pid 4001)]
   \<and> drop 15 (emitted (start echo) quiet_os)
       = [Sys (CPopen [''/bin/sleep'', ''5'']) (Pid 4014),
          Write ''/home/u/.nocrux/echo.pid'' ''4014'',
          Sys (CClose ''/home/u/.nocrux/echo.pid'') Done,
          Sys (CWaitpid 4001) Done,
          Sys (COpen ''/home/u/.nocrux/echo.pid'' ''r'') Done,
          Print (''-  [echo] started (PID: 4014)'' @ nl)]
   \<and> files (snd (start echo quiet_os)) (pidfile echo) = Some ''4014''
   \<and> \<not> (files (snd (start echo quiet_os)) (pidfile echo) = Some (str_int 4001))
   \<and> \<not> none_after is_launch is_write (emitted (start echo) quiet_os)"
  by (simp add: emitted_def start_defs prog_defs text_defs Let_def is_launch_def is_write_def
       digits_of_numeral echo_def quiet_os_def)

section \<open>The stop protocol\<close>














end
